theory Spec2Isabelle
  imports Main
begin

section \<open>Spans, positions and issues of the template language service\<close>

text \<open>
  The embedded code is the second document of \<^verbatim>\<open>src/src/acquisition/dotnetAcquisition.ts\<close>
  (lines 107 to 271): the classes \<^verbatim>\<open>Span\<close>, \<^verbatim>\<open>Position\<close> and \<^verbatim>\<open>Issue\<close> and the enum
  \<^verbatim>\<open>IssueKind\<close>.

  A TypeScript \<^verbatim>\<open>number\<close> is an IEEE 754 double. The numbers of these classes hold
  character offsets, lengths, lines and columns, so a number is modelled by the integer it holds,
  an \<^typ>\<open>int\<close>. Comparisons, \<^verbatim>\<open>Math.min\<close> and \<^verbatim>\<open>Math.max\<close> are exact on such values;
  \<^verbatim>\<open>+\<close> and \<^verbatim>\<open>-\<close> return the exact result rounded to the nearest double, ties to the even
  significand (\<open>num_add\<close>, \<open>num_sub\<close> below). Every integer of magnitude up to \<open>2^53\<close> is a
  double, so results in that range are exact. A sum of magnitude \<open>2^1024\<close> or more is
  \<^verbatim>\<open>Infinity\<close> in the code and has no counterpart here. Objects are compared by value (record
  equality), not by reference. A thrown exception is a value \<open>Inl e\<close> of the result type
  \<open>error + 'a\<close>.
\<close>

subsection \<open>Errors, \<^verbatim>\<open>assert\<close> and \<^verbatim>\<open>nonNullValue\<close>\<close>

datatype error =
  NullValueError string
| AssertionError string

text \<open>
  Node's \<^verbatim>\<open>assert(value, message)\<close>: throws an \<^verbatim>\<open>AssertionError\<close> carrying \<^verbatim>\<open>message\<close> when
  \<^verbatim>\<open>value\<close> is not truthy, and returns nothing otherwise.
\<close>

definition assert :: "bool \<Rightarrow> string \<Rightarrow> error + unit" where
  "assert v message = (if v then Inr () else Inl (AssertionError message))"

text \<open>
  Modelled from the spec: \<^verbatim>\<open>nonNullValue\<close> is imported from \<^verbatim>\<open>./util/nonNull\<close>, which is not
  among the sources. The spec lists invariant violations as the only failures of this layer and
  treats "absent" as the one value that is not a proper one, so \<^verbatim>\<open>nonNullValue(value, name)\<close>
  is taken to throw for an absent value (\<open>None\<close>) and to return every present value unchanged.
\<close>

definition nonNullValue :: "'a option \<Rightarrow> string \<Rightarrow> error + 'a" where
  "nonNullValue v propertyName =
     (case v of None \<Rightarrow> Inl (NullValueError propertyName) | Some x \<Rightarrow> Inr x)"

text \<open>Whether a result is a thrown \<^verbatim>\<open>AssertionError\<close>.\<close>

definition fails_assertion :: "error + 'a \<Rightarrow> bool" where
  "fails_assertion r =
     (case r of
        Inl e \<Rightarrow> (case e of AssertionError m \<Rightarrow> True | NullValueError n \<Rightarrow> False)
      | Inr x \<Rightarrow> False)"

subsection \<open>Arithmetic of \<^verbatim>\<open>number\<close>\<close>

text \<open>
  The spacing of the doubles around a magnitude \<open>n\<close>: 1 below \<open>2^53\<close> (53 bits of
  significand hold \<open>n\<close> itself), and doubling with every further bit.
\<close>

function ulp :: "nat \<Rightarrow> nat" where
  "ulp n = (if n < 9007199254740992 then 1 else 2 * ulp (n div 2))"
  by pat_completeness auto
termination
  by (relation "measure (\<lambda>n. n)") auto

declare ulp.simps [simp del]

text \<open>Round to nearest, ties to even: \<open>q\<close> is the significand, \<open>r\<close> what does not fit.\<close>

definition round_magnitude :: "nat \<Rightarrow> nat" where
  "round_magnitude n =
     (let u = ulp n; q = n div u; r = n mod u
      in if 2 * r < u then q * u
         else if u < 2 * r then (q + 1) * u
         else if even q then q * u
         else (q + 1) * u)"

definition to_double :: "int \<Rightarrow> int" where
  "to_double x =
     (if x < 0 then - int (round_magnitude (nat (- x))) else int (round_magnitude (nat x)))"

text \<open>
  \<^verbatim>\<open>a + b\<close> and \<^verbatim>\<open>a - b\<close> on numbers. Adding or subtracting zero returns the other operand as
  it is; every other result is the exact one, rounded. On operands that are doubles the first
  case is the second (\<open>num_add_is_rounding\<close>, \<open>num_sub_is_rounding\<close> below).
\<close>

definition num_add :: "int \<Rightarrow> int \<Rightarrow> int" where
  "num_add a b = (if b = 0 then a else if a = 0 then b else to_double (a + b))"

definition num_sub :: "int \<Rightarrow> int \<Rightarrow> int" where
  "num_sub a b = (if b = 0 then a else to_double (a - b))"

text \<open>The range in which every integer is a double: magnitude at most \<open>2^53\<close>.\<close>

definition in_exact_range :: "int \<Rightarrow> bool" where
  "in_exact_range x = (\<bar>x\<bar> \<le> 9007199254740992)"

subsection \<open>\<^verbatim>\<open>class Span\<close>\<close>

record Span =
  priv_startIndex :: int
  priv_length :: int

text \<open>\<^verbatim>\<open>constructor(private _startIndex: number, private _length: number) { }\<close>: the body is
  empty, so the constructor has no failing branch.\<close>

definition Span_new :: "int \<Rightarrow> int \<Rightarrow> Span" where
  "Span_new startIndex len = \<lparr>priv_startIndex = startIndex, priv_length = len\<rparr>"

definition Span_startIndex :: "Span \<Rightarrow> int" where
  "Span_startIndex this = priv_startIndex this"

definition Span_length :: "Span \<Rightarrow> int" where
  "Span_length this = priv_length this"

definition Span_endIndex :: "Span \<Rightarrow> int" where
  "Span_endIndex this =
     num_add (priv_startIndex this)
       (if priv_length this > 0 then num_sub (priv_length this) 1 else 0)"

definition Span_afterEndIndex :: "Span \<Rightarrow> int" where
  "Span_afterEndIndex this = num_add (priv_startIndex this) (priv_length this)"

text \<open>
  \<^verbatim>\<open>contains(index, includeAfterEndIndex = false)\<close>: the optional second parameter is an
  \<open>option\<close>; an omitted argument (\<open>None\<close>) takes the default \<open>False\<close>.
\<close>

definition Span_contains :: "Span \<Rightarrow> int \<Rightarrow> bool option \<Rightarrow> bool" where
  "Span_contains this index includeAfterEndIndexArg =
     (let includeAfterEndIndex =
            (case includeAfterEndIndexArg of None \<Rightarrow> False | Some b \<Rightarrow> b);
          result = (priv_startIndex this \<le> index)
      in if result
         then (if includeAfterEndIndex
               then index \<le> Span_afterEndIndex this
               else index \<le> Span_endIndex this)
         else result)"

text \<open>\<^verbatim>\<open>union(rhs: Span | undefined)\<close>: an object is truthy, so \<^verbatim>\<open>!!rhs\<close> holds exactly when
  \<^verbatim>\<open>rhs\<close> is present.\<close>

definition Span_union :: "Span \<Rightarrow> Span option \<Rightarrow> Span" where
  "Span_union this rhsArg =
     (case rhsArg of
        Some rhs \<Rightarrow>
          (let minStart = min (Span_startIndex this) (Span_startIndex rhs);
               maxAfterEndIndex = max (Span_afterEndIndex this) (Span_afterEndIndex rhs)
           in Span_new minStart (num_sub maxAfterEndIndex minStart))
      | None \<Rightarrow> this)"

text \<open>\<^verbatim>\<open>static union(lhs: Span | undefined, rhs: Span | undefined): Span | undefined\<close>.\<close>

definition Span_union_static :: "Span option \<Rightarrow> Span option \<Rightarrow> Span option" where
  "Span_union_static lhsArg rhsArg =
     (case lhsArg of
        Some lhs \<Rightarrow> Some (Span_union lhs rhsArg)
      | None \<Rightarrow> (case rhsArg of Some rhs \<Rightarrow> Some rhs | None \<Rightarrow> None))"

definition Span_translate :: "Span \<Rightarrow> int \<Rightarrow> Span" where
  "Span_translate this movement =
     (if movement = 0 then this
      else Span_new (num_add (priv_startIndex this) movement) (priv_length this))"

subsection \<open>\<^verbatim>\<open>class Position\<close>\<close>

record Position =
  priv_line :: int
  priv_column :: int

definition Position_new :: "int \<Rightarrow> int \<Rightarrow> error + Position" where
  "Position_new line column =
     (case nonNullValue (Some line) ''_line'' of
        Inl e \<Rightarrow> Inl e
      | Inr v1 \<Rightarrow>
     (case assert (line \<ge> 0) ''_line cannot be less than 0'' of
        Inl e \<Rightarrow> Inl e
      | Inr u1 \<Rightarrow>
     (case nonNullValue (Some column) ''_column'' of
        Inl e \<Rightarrow> Inl e
      | Inr v2 \<Rightarrow>
     (case assert (column \<ge> 0) ''_column cannot be less than 0'' of
        Inl e \<Rightarrow> Inl e
      | Inr u2 \<Rightarrow> Inr \<lparr>priv_line = line, priv_column = column\<rparr>))))"

definition Position_line :: "Position \<Rightarrow> int" where
  "Position_line this = priv_line this"

definition Position_column :: "Position \<Rightarrow> int" where
  "Position_column this = priv_column this"

subsection \<open>\<^verbatim>\<open>enum IssueKind\<close>\<close>

datatype IssueKind =
  tleSyntax
| referenceInVar
| unusedVar
| unusedParam
| unusedUdfParam
| unusedUdf
| badArgsCount
| badFuncContext
| undefinedFunc
| undefinedNs
| undefinedUdf
| undefinedParam
| undefinedVar
| varInUdf
| undefinedVarProp

text \<open>The string each member is initialised with.\<close>

fun IssueKind_value :: "IssueKind \<Rightarrow> string" where
  "IssueKind_value tleSyntax = ''tleSyntax''"
| "IssueKind_value referenceInVar = ''referenceInVar''"
| "IssueKind_value unusedVar = ''unusedVar''"
| "IssueKind_value unusedParam = ''unusedParam''"
| "IssueKind_value unusedUdfParam = ''unusedUdfParam''"
| "IssueKind_value unusedUdf = ''unusedUdf''"
| "IssueKind_value badArgsCount = ''badArgsCount''"
| "IssueKind_value badFuncContext = ''badFuncContext''"
| "IssueKind_value undefinedFunc = ''undefinedFunc''"
| "IssueKind_value undefinedNs = ''undefinedNs''"
| "IssueKind_value undefinedUdf = ''undefinedUdf''"
| "IssueKind_value undefinedParam = ''undefinedParam''"
| "IssueKind_value undefinedVar = ''undefinedVar''"
| "IssueKind_value varInUdf = ''varInUdf''"
| "IssueKind_value undefinedVarProp = ''undefinedVarProp''"

subsection \<open>\<^verbatim>\<open>class Issue\<close>\<close>

record Issue =
  priv_span :: Span
  priv_message :: string
  kind :: IssueKind

definition Issue_new :: "Span \<Rightarrow> string \<Rightarrow> IssueKind \<Rightarrow> error + Issue" where
  "Issue_new span message k =
     (case nonNullValue (Some span) ''_span'' of
        Inl e \<Rightarrow> Inl e
      | Inr v1 \<Rightarrow>
     (case assert (1 \<le> Span_length span)
             ''_span's length must be greater than or equal to 1.'' of
        Inl e \<Rightarrow> Inl e
      | Inr u1 \<Rightarrow>
     (case nonNullValue (Some message) ''_message'' of
        Inl e \<Rightarrow> Inl e
      | Inr v2 \<Rightarrow>
     (case assert (message \<noteq> '''') ''_message must not be empty.'' of
        Inl e \<Rightarrow> Inl e
      | Inr u2 \<Rightarrow> Inr \<lparr>priv_span = span, priv_message = message, kind = k\<rparr>))))"

definition Issue_span :: "Issue \<Rightarrow> Span" where
  "Issue_span this = priv_span this"

definition Issue_message :: "Issue \<Rightarrow> string" where
  "Issue_message this = priv_message this"

definition Issue_translate :: "Issue \<Rightarrow> int \<Rightarrow> error + Issue" where
  "Issue_translate this movement =
     Issue_new (Span_translate (priv_span this) movement) (priv_message this) (kind this)"

section \<open>Properties\<close>

lemmas Span_defs =
  Span_new_def Span_startIndex_def Span_length_def Span_endIndex_def Span_afterEndIndex_def

subsection \<open>Facts about the arithmetic\<close>

lemma ulp_below: "n < 9007199254740992 \<Longrightarrow> ulp n = 1"
  by (simp add: ulp.simps)

lemma ulp_at: "ulp 9007199254740992 = 2"
  by (simp add: ulp.simps [of 9007199254740992] ulp_below)

lemma round_magnitude_exact:
  assumes "n \<le> 9007199254740992"
  shows "round_magnitude n = n"
proof (cases "n < 9007199254740992")
  case True
  then show ?thesis
    by (simp add: round_magnitude_def ulp_below)
next
  case False
  with assms have "n = 9007199254740992" by simp
  then show ?thesis
    by (simp add: round_magnitude_def ulp_at)
qed

lemma to_double_exact: "in_exact_range x \<Longrightarrow> to_double x = x"
  by (simp add: to_double_def in_exact_range_def round_magnitude_exact)

lemma num_add_exact: "in_exact_range (a + b) \<Longrightarrow> num_add a b = a + b"
  by (simp add: num_add_def to_double_exact)

lemma num_sub_exact: "in_exact_range (a - b) \<Longrightarrow> num_sub a b = a - b"
  by (simp add: num_sub_def to_double_exact)

lemma num_add_zero_right: "num_add a 0 = a"
  by (simp add: num_add_def)

text \<open>On doubles, \<open>num_add\<close> and \<open>num_sub\<close> are the rounded exact sum and difference.\<close>

lemma num_add_is_rounding:
  "to_double a = a \<Longrightarrow> to_double b = b \<Longrightarrow> num_add a b = to_double (a + b)"
  by (simp add: num_add_def)

lemma num_sub_is_rounding: "to_double a = a \<Longrightarrow> num_sub a b = to_double (a - b)"
  by (simp add: num_sub_def)

text \<open>
  The first integer that is not a double, \<open>2^53 + 1\<close>, lies half way between \<open>2^53\<close> and
  \<open>2^53 + 2\<close> and rounds to \<open>2^53\<close>, whose significand is even; \<open>2^54 - 1\<close> lies half way
  between \<open>2^54 - 2\<close> and \<open>2^54\<close> and rounds up to \<open>2^54\<close>.
\<close>

lemma ulp_above: "ulp 9007199254740993 = 2"
  by (simp add: ulp.simps [of 9007199254740993] ulp_below)

lemma ulp_below_next: "ulp 18014398509481983 = 2"
  by (simp add: ulp.simps [of 18014398509481983] ulp_below)

lemma to_double_above: "to_double 9007199254740993 = 9007199254740992"
  by (simp add: to_double_def round_magnitude_def ulp_above)

lemma to_double_below_next: "to_double 18014398509481983 = 18014398509481984"
  by (simp add: to_double_def round_magnitude_def ulp_below_next)

lemma Span_afterEndIndex_exact:
  "in_exact_range (Span_startIndex s + Span_length s) \<Longrightarrow>
     Span_afterEndIndex s = Span_startIndex s + Span_length s"
  by (simp add: Span_defs num_add_exact)

subsection \<open>The claims\<close>

text \<open>
  Claim C1. For every span and every integer index, \<^verbatim>\<open>contains(index)\<close> with the second
  argument omitted is true exactly when \<open>startIndex \<le> index \<le> endIndex\<close>, and
  \<^verbatim>\<open>contains(index, true)\<close> exactly when \<open>startIndex \<le> index \<le> afterEndIndex\<close>; passing
  \<^verbatim>\<open>false\<close> explicitly is the same as omitting it. For \<^verbatim>\<open>Span(3,4)\<close>: 2 is not contained, 3 and
  6 are, 7 is not, and 7 is with \<^verbatim>\<open>includeAfterEndIndex\<close> set.
\<close>

theorem Span_contains_iff:
  "Span_contains s index None = (Span_startIndex s \<le> index \<and> index \<le> Span_endIndex s)
   \<and> Span_contains s index (Some False) = Span_contains s index None
   \<and> Span_contains s index (Some True)
       = (Span_startIndex s \<le> index \<and> index \<le> Span_afterEndIndex s)
   \<and> Span_contains (Span_new 3 4) 2 None = False
   \<and> Span_contains (Span_new 3 4) 3 None = True
   \<and> Span_contains (Span_new 3 4) 6 None = True
   \<and> Span_contains (Span_new 3 4) 7 None = False
   \<and> Span_contains (Span_new 3 4) 7 (Some True) = True"
  by (auto simp add: Span_contains_def Span_defs Let_def num_add_exact num_sub_exact
      in_exact_range_def)

text \<open>
  As the claim is written, for all spans, the \<^verbatim>\<open>afterEndIndex\<close> of a union is not always the
  larger \<^verbatim>\<open>afterEndIndex\<close>: for \<^verbatim>\<open>Span(-1,1).union(Span(0,2^53))\<close> the length
  \<open>2^53 - (-1)\<close> rounds to \<open>2^53\<close>, and the union ends at \<open>2^53 - 1\<close>.
\<close>

theorem Span_union_afterEndIndex_counterexample:
  "Span_afterEndIndex (Span_union (Span_new (- 1) 1) (Some (Span_new 0 9007199254740992)))
     = 9007199254740991
   \<and> max (Span_afterEndIndex (Span_new (- 1) 1))
         (Span_afterEndIndex (Span_new 0 9007199254740992))
     = 9007199254740992
   \<and> Span_afterEndIndex (Span_union (Span_new (- 1) 1) (Some (Span_new 0 9007199254740992)))
     \<noteq> max (Span_afterEndIndex (Span_new (- 1) 1))
         (Span_afterEndIndex (Span_new 0 9007199254740992))"
  by (simp add: Span_union_def Span_defs Let_def num_add_def num_sub_def to_double_above
      to_double_exact in_exact_range_def)

text \<open>
  Claim C2. For all spans \<open>a\<close> and \<open>b\<close>, \<^verbatim>\<open>a.union(b)\<close> starts at the smaller of the two start
  indexes and does not depend on the order of its arguments; \<^verbatim>\<open>s.union(undefined)\<close> is \<open>s\<close>;
  the static union returns the present argument when exactly one is absent, nothing when both
  are absent, and the member union when both are present. When both \<open>startIndex + length\<close>
  sums and the distance from the smaller start to the larger end have magnitude at most
  \<open>2^53\<close>, the \<^verbatim>\<open>afterEndIndex\<close> of the union is the larger of the two, so the union bridges
  gaps: \<^verbatim>\<open>Span(0,1).union(Span(10,1))\<close> and \<^verbatim>\<open>Span(10,1).union(Span(0,1))\<close> are both
  \<^verbatim>\<open>Span(0,11)\<close>.
\<close>

theorem Span_union_exact:
  "Span_startIndex (Span_union a (Some b)) = min (Span_startIndex a) (Span_startIndex b)
   \<and> (in_exact_range (Span_startIndex a + Span_length a)
        \<and> in_exact_range (Span_startIndex b + Span_length b)
        \<and> in_exact_range
             (max (Span_startIndex a + Span_length a) (Span_startIndex b + Span_length b)
                - min (Span_startIndex a) (Span_startIndex b))
      \<longrightarrow>
        Span_afterEndIndex (Span_union a (Some b))
          = max (Span_afterEndIndex a) (Span_afterEndIndex b)
        \<and> Span_union a (Some b)
          = Span_new (min (Span_startIndex a) (Span_startIndex b))
              (max (Span_afterEndIndex a) (Span_afterEndIndex b)
                 - min (Span_startIndex a) (Span_startIndex b)))
   \<and> Span_union a (Some b) = Span_union b (Some a)
   \<and> Span_union (Span_new 0 1) (Some (Span_new 10 1)) = Span_new 0 11
   \<and> Span_union (Span_new 10 1) (Some (Span_new 0 1)) = Span_new 0 11
   \<and> Span_union s None = s
   \<and> Span_union_static (Some a) None = Some a
   \<and> Span_union_static None (Some b) = Some b
   \<and> Span_union_static None None = None
   \<and> Span_union_static (Some a) (Some b) = Some (Span_union a (Some b))"
proof -
  let ?lo = "min (Span_startIndex a) (Span_startIndex b)"
  let ?hi = "max (Span_startIndex a + Span_length a) (Span_startIndex b + Span_length b)"
  have start: "Span_startIndex (Span_union a (Some b)) = ?lo"
    by (simp add: Span_union_def Let_def Span_new_def Span_startIndex_def)
  have bounded:
    "Span_afterEndIndex (Span_union a (Some b))
       = max (Span_afterEndIndex a) (Span_afterEndIndex b)
     \<and> Span_union a (Some b)
       = Span_new ?lo (max (Span_afterEndIndex a) (Span_afterEndIndex b) - ?lo)"
    if ra: "in_exact_range (Span_startIndex a + Span_length a)"
      and rb: "in_exact_range (Span_startIndex b + Span_length b)"
      and rd: "in_exact_range (?hi - ?lo)"
  proof -
    have ea: "Span_afterEndIndex a = Span_startIndex a + Span_length a"
      using ra by (rule Span_afterEndIndex_exact)
    have eb: "Span_afterEndIndex b = Span_startIndex b + Span_length b"
      using rb by (rule Span_afterEndIndex_exact)
    have len: "num_sub ?hi ?lo = ?hi - ?lo"
      using rd by (rule num_sub_exact)
    have un: "Span_union a (Some b) = Span_new ?lo (?hi - ?lo)"
      by (simp add: Span_union_def Let_def ea eb len)
    have rhi: "in_exact_range ?hi"
      using ra rb by (simp add: max_def)
    have "Span_afterEndIndex (Span_new ?lo (?hi - ?lo)) = num_add ?lo (?hi - ?lo)"
      by (simp add: Span_afterEndIndex_def Span_new_def)
    also have "\<dots> = ?lo + (?hi - ?lo)"
      using rhi by (intro num_add_exact) simp
    finally have "Span_afterEndIndex (Span_union a (Some b)) = ?hi"
      by (simp add: un)
    then show ?thesis
      by (simp add: un ea eb)
  qed
  have comm: "Span_union a (Some b) = Span_union b (Some a)"
    by (simp add: Span_union_def Let_def min.commute max.commute)
  have ex1: "Span_union (Span_new 0 1) (Some (Span_new 10 1)) = Span_new 0 11"
    by (simp add: Span_union_def Let_def Span_defs num_add_exact num_sub_exact
        in_exact_range_def)
  have ex2: "Span_union (Span_new 10 1) (Some (Span_new 0 1)) = Span_new 0 11"
    by (simp add: Span_union_def Let_def Span_defs num_add_exact num_sub_exact
        in_exact_range_def)
  have absent: "Span_union s None = s"
    by (simp add: Span_union_def)
  have static:
    "Span_union_static (Some a) None = Some a
     \<and> Span_union_static None (Some b) = Some b
     \<and> Span_union_static None None = None
     \<and> Span_union_static (Some a) (Some b) = Some (Span_union a (Some b))"
    by (simp add: Span_union_static_def Span_union_def)
  from start bounded comm ex1 ex2 absent static show ?thesis
    by blast
qed

theorem Span_union_exact_witness:
  "(in_exact_range (Span_startIndex (Span_new 0 1) + Span_length (Span_new 0 1))
    \<and> in_exact_range (Span_startIndex (Span_new 10 1) + Span_length (Span_new 10 1))
    \<and> in_exact_range
         (max (Span_startIndex (Span_new 0 1) + Span_length (Span_new 0 1))
              (Span_startIndex (Span_new 10 1) + Span_length (Span_new 10 1))
            - min (Span_startIndex (Span_new 0 1)) (Span_startIndex (Span_new 10 1))))
   \<and> Span_startIndex (Span_union (Span_new 0 1) (Some (Span_new 10 1))) = 0
   \<and> Span_afterEndIndex (Span_union (Span_new 0 1) (Some (Span_new 10 1))) = 11"
  using Span_union_exact [of "Span_new 0 1" "Span_new 10 1"]
  by (simp add: Span_defs num_add_exact in_exact_range_def)

text \<open>
  As the claim is written, for every span, it fails where the sum is rounded:
  \<^verbatim>\<open>Span(2^53,1).afterEndIndex\<close> is \<open>2^53\<close>, so \<open>afterEndIndex - startIndex\<close> is 0, not the
  length 1.
\<close>

theorem Span_index_arith_counterexample:
  "Span_afterEndIndex (Span_new 9007199254740992 1) - Span_startIndex (Span_new 9007199254740992 1)
     = 0
   \<and> Span_length (Span_new 9007199254740992 1) = 1
   \<and> Span_afterEndIndex (Span_new 9007199254740992 1)
        - Span_startIndex (Span_new 9007199254740992 1)
     \<noteq> Span_length (Span_new 9007199254740992 1)"
  by (simp add: Span_defs num_add_def to_double_above)

text \<open>
  Claim C3. For every span whose \<open>startIndex\<close>, \<open>length\<close> and \<open>startIndex + length\<close> have
  magnitude at most \<open>2^53\<close>, \<open>afterEndIndex - startIndex = length\<close> and
  \<open>endIndex = startIndex + max (length - 1) 0\<close>, which is \<open>startIndex + length - 1\<close> for a
  positive length. For every span whatever of length 0 or less, \<open>endIndex = startIndex\<close>.
\<close>

theorem Span_index_arith_exact:
  "(Span_length s \<le> 0 \<longrightarrow> Span_endIndex s = Span_startIndex s)
   \<and> (in_exact_range (Span_startIndex s) \<and> in_exact_range (Span_length s)
        \<and> in_exact_range (Span_startIndex s + Span_length s)
      \<longrightarrow>
        Span_afterEndIndex s - Span_startIndex s = Span_length s
        \<and> Span_endIndex s = Span_startIndex s + max (Span_length s - 1) 0
        \<and> (0 < Span_length s \<longrightarrow> Span_endIndex s = Span_startIndex s + Span_length s - 1)
        \<and> (Span_length s = 0 \<longrightarrow> Span_endIndex s = Span_startIndex s))"
proof -
  have nonpos: "Span_endIndex s = Span_startIndex s" if "Span_length s \<le> 0"
    using that by (simp add: Span_defs num_add_zero_right)
  have pos: "Span_endIndex s = Span_startIndex s + Span_length s - 1"
    if r0: "in_exact_range (Span_startIndex s)" and r1: "in_exact_range (Span_length s)"
      and r2: "in_exact_range (Span_startIndex s + Span_length s)" and l: "0 < Span_length s"
  proof -
    have "in_exact_range (Span_length s - 1)"
      using r1 l by (simp add: in_exact_range_def)
    then have last: "num_sub (Span_length s) 1 = Span_length s - 1"
      by (rule num_sub_exact)
    have "in_exact_range (Span_startIndex s + (Span_length s - 1))"
      using r0 r2 l by (simp add: in_exact_range_def)
    then have "num_add (Span_startIndex s) (Span_length s - 1)
                 = Span_startIndex s + (Span_length s - 1)"
      by (rule num_add_exact)
    then show ?thesis
      using l last by (simp add: Span_defs)
  qed
  have after: "Span_afterEndIndex s - Span_startIndex s = Span_length s"
    if "in_exact_range (Span_startIndex s + Span_length s)"
    using that by (simp add: Span_afterEndIndex_exact)
  have bounded:
    "Span_afterEndIndex s - Span_startIndex s = Span_length s
     \<and> Span_endIndex s = Span_startIndex s + max (Span_length s - 1) 0
     \<and> (0 < Span_length s \<longrightarrow> Span_endIndex s = Span_startIndex s + Span_length s - 1)
     \<and> (Span_length s = 0 \<longrightarrow> Span_endIndex s = Span_startIndex s)"
    if r0: "in_exact_range (Span_startIndex s)" and r1: "in_exact_range (Span_length s)"
      and r2: "in_exact_range (Span_startIndex s + Span_length s)"
  proof (cases "0 < Span_length s")
    case True
    from pos [OF r0 r1 r2 True] after [OF r2] True show ?thesis
      by (simp add: max_def)
  next
    case False
    then have "Span_length s \<le> 0" by simp
    from nonpos [OF this] after [OF r2] False show ?thesis
      by (simp add: max_def)
  qed
  show ?thesis
    using nonpos bounded by blast
qed

theorem Span_index_arith_exact_witness:
  "(in_exact_range (Span_startIndex (Span_new 3 4)) \<and> in_exact_range (Span_length (Span_new 3 4))
    \<and> in_exact_range (Span_startIndex (Span_new 3 4) + Span_length (Span_new 3 4))
    \<and> 0 < Span_length (Span_new 3 4)
    \<and> Span_endIndex (Span_new 3 4) = 6
    \<and> Span_afterEndIndex (Span_new 3 4) - Span_startIndex (Span_new 3 4) = 4)
   \<and> (in_exact_range (Span_startIndex (Span_new 5 0)) \<and> in_exact_range (Span_length (Span_new 5 0))
    \<and> in_exact_range (Span_startIndex (Span_new 5 0) + Span_length (Span_new 5 0))
    \<and> Span_length (Span_new 5 0) = 0
    \<and> Span_endIndex (Span_new 5 0) = 5)"
  using Span_index_arith_exact [of "Span_new 3 4"] Span_index_arith_exact [of "Span_new 5 0"]
  by (simp add: Span_new_def Span_startIndex_def Span_length_def in_exact_range_def)

text \<open>
  As the claim is written, for all integers, additivity fails where a sum is rounded:
  \<^verbatim>\<open>Span(1,1).translate(2^53)\<close> starts at \<open>2^53\<close>, not at \<open>2^53 + 1\<close>, so translating it back
  by \<open>- 2^53\<close> gives \<^verbatim>\<open>Span(0,1)\<close>, while \<^verbatim>\<open>Span(1,1).translate(2^53 + (- 2^53))\<close> is
  \<^verbatim>\<open>Span(1,1)\<close>.
\<close>

theorem Span_translate_additive_counterexample:
  "Span_translate (Span_translate (Span_new 1 1) 9007199254740992) (- 9007199254740992)
     = Span_new 0 1
   \<and> Span_translate (Span_new 1 1) (9007199254740992 + (- 9007199254740992)) = Span_new 1 1
   \<and> Span_translate (Span_translate (Span_new 1 1) 9007199254740992) (- 9007199254740992)
     \<noteq> Span_translate (Span_new 1 1) (9007199254740992 + (- 9007199254740992))"
  by (simp add: Span_translate_def Span_new_def num_add_def to_double_above to_double_exact
      in_exact_range_def)

text \<open>
  Claim C4. For every span and every integer \<open>delta\<close>, \<^verbatim>\<open>translate(delta)\<close> has the same length,
  and translating by 0 gives the span back. When \<open>startIndex + delta\<close> has magnitude at most
  \<open>2^53\<close> (negative values included, nothing is clamped at zero), the result starts at
  \<open>startIndex + delta\<close>. When \<open>a + b\<close>, \<open>startIndex + a\<close> and \<open>startIndex + a + b\<close> have magnitude
  at most \<open>2^53\<close>, translating by \<open>a\<close> and then by \<open>b\<close> is translating by \<open>a + b\<close>.
\<close>

theorem Span_translate_exact:
  "Span_length (Span_translate s delta) = Span_length s
   \<and> Span_translate s 0 = s
   \<and> (in_exact_range (Span_startIndex s + delta) \<longrightarrow>
        Span_startIndex (Span_translate s delta) = Span_startIndex s + delta
        \<and> Span_translate s delta = Span_new (Span_startIndex s + delta) (Span_length s))
   \<and> (in_exact_range (a + b) \<and> in_exact_range (Span_startIndex s + a)
        \<and> in_exact_range (Span_startIndex s + a + b) \<longrightarrow>
        Span_translate (Span_translate s a) b = Span_translate s (a + b))
   \<and> Span_startIndex (Span_translate (Span_new 2 3) (- 5)) = - 3"
proof -
  have len: "Span_length (Span_translate s delta) = Span_length s"
    by (simp add: Span_translate_def Span_new_def Span_length_def)
  have zero: "Span_translate s 0 = s"
    by (simp add: Span_translate_def)
  have one: "Span_translate s d = Span_new (Span_startIndex s + d) (Span_length s)"
    if "in_exact_range (Span_startIndex s + d)" for d
    using that
    by (simp add: Span_translate_def Span_new_def Span_startIndex_def Span_length_def
        num_add_exact)
  have add: "Span_translate (Span_translate s a) b = Span_translate s (a + b)"
    if ra: "in_exact_range (Span_startIndex s + a)"
      and rab: "in_exact_range (Span_startIndex s + a + b)"
  proof -
    have rab': "in_exact_range (Span_startIndex s + (a + b))"
      using rab by (simp add: add.assoc)
    have "Span_translate (Span_translate s a) b
            = Span_translate (Span_new (Span_startIndex s + a) (Span_length s)) b"
      using ra by (simp add: one)
    also have "\<dots> = Span_new (Span_startIndex s + a + b) (Span_length s)"
      using rab
      by (simp add: Span_translate_def Span_new_def num_add_exact)
    also have "\<dots> = Span_translate s (a + b)"
      using rab' by (simp add: one add.assoc)
    finally show ?thesis .
  qed
  have neg: "Span_startIndex (Span_translate (Span_new 2 3) (- 5)) = - 3"
    by (simp add: Span_translate_def Span_new_def Span_startIndex_def num_add_exact
        in_exact_range_def)
  show ?thesis
    using len zero one [of delta] add neg
    by (simp add: Span_new_def Span_startIndex_def)
qed

theorem Span_translate_exact_witness:
  "(in_exact_range (Span_startIndex (Span_new 2 3) + (- 5))
    \<and> Span_translate (Span_new 2 3) (- 5) = Span_new (- 3) 3)
   \<and> (in_exact_range (- 5 + 7) \<and> in_exact_range (Span_startIndex (Span_new 2 3) + (- 5))
    \<and> in_exact_range (Span_startIndex (Span_new 2 3) + (- 5) + 7)
    \<and> Span_translate (Span_translate (Span_new 2 3) (- 5)) 7 = Span_new 4 3
    \<and> Span_translate (Span_new 2 3) (- 5 + 7) = Span_new 4 3)"
  using Span_translate_exact [of "Span_new 2 3" "- 5" "- 5" 7]
  by (simp add: Span_translate_def Span_new_def Span_startIndex_def Span_length_def
      num_add_exact in_exact_range_def)

text \<open>
  Claim C5. Constructing an issue throws an assertion error exactly when the span has a length
  below 1 or the message is the empty string, and it throws nothing else; for a span of length
  at least 1 and a non-empty message it returns the issue made of its three arguments.
\<close>

theorem Issue_new_spec:
  "fails_assertion (Issue_new sp m k) = (Span_length sp < 1 \<or> m = '''')
   \<and> isl (Issue_new sp m k) = (Span_length sp < 1 \<or> m = '''')
   \<and> (1 \<le> Span_length sp \<and> m \<noteq> '''' \<longrightarrow>
        Issue_new sp m k = Inr \<lparr>priv_span = sp, priv_message = m, kind = k\<rparr>)"
  by (auto simp add: Issue_new_def nonNullValue_def assert_def fails_assertion_def)

theorem Issue_new_spec_witness:
  "(1 \<le> Span_length (Span_new 3 4) \<and> ''unused'' \<noteq> '''')
   \<and> Issue_new (Span_new 3 4) ''unused'' unusedVar
       = Inr \<lparr>priv_span = Span_new 3 4, priv_message = ''unused'', kind = unusedVar\<rparr>
   \<and> fails_assertion (Issue_new (Span_new 3 0) ''unused'' unusedVar)
   \<and> fails_assertion (Issue_new (Span_new 3 4) '''' unusedVar)"
  using Issue_new_spec [of "Span_new 3 4" "''unused''" unusedVar]
    Issue_new_spec [of "Span_new 3 0" "''unused''" unusedVar]
    Issue_new_spec [of "Span_new 3 4" "''''" unusedVar]
  by (simp add: Span_defs)

text \<open>
  As the claim is written, for every integer \<open>d\<close>, the round trip fails where a sum is rounded:
  the issue over \<^verbatim>\<open>Span(1,1)\<close> translated by \<open>2^53\<close> lies over \<^verbatim>\<open>Span(2^53,1)\<close>, and translating
  that by \<open>- 2^53\<close> gives an issue over \<^verbatim>\<open>Span(0,1)\<close>.
\<close>

theorem Issue_translate_round_trip_counterexample:
  "1 \<le> Span_length (Issue_span \<lparr>priv_span = Span_new 1 1, priv_message = ''m'', kind = unusedVar\<rparr>)
   \<and> Issue_message \<lparr>priv_span = Span_new 1 1, priv_message = ''m'', kind = unusedVar\<rparr> \<noteq> ''''
   \<and> Issue_translate \<lparr>priv_span = Span_new 1 1, priv_message = ''m'', kind = unusedVar\<rparr>
        9007199254740992
     = Inr \<lparr>priv_span = Span_new 9007199254740992 1, priv_message = ''m'', kind = unusedVar\<rparr>
   \<and> Issue_translate
        \<lparr>priv_span = Span_new 9007199254740992 1, priv_message = ''m'', kind = unusedVar\<rparr>
        (- 9007199254740992)
     = Inr \<lparr>priv_span = Span_new 0 1, priv_message = ''m'', kind = unusedVar\<rparr>
   \<and> Issue_translate
        \<lparr>priv_span = Span_new 9007199254740992 1, priv_message = ''m'', kind = unusedVar\<rparr>
        (- 9007199254740992)
     \<noteq> Inr \<lparr>priv_span = Span_new 1 1, priv_message = ''m'', kind = unusedVar\<rparr>"
  by (simp add: Issue_translate_def Issue_new_def nonNullValue_def assert_def Issue_span_def
      Issue_message_def Span_translate_def Span_new_def Span_length_def num_add_def
      to_double_above to_double_exact in_exact_range_def)

text \<open>
  Claim C6. For an issue whose span has length at least 1 and whose message is not empty,
  and every integer \<open>d\<close>, \<^verbatim>\<open>translate(d)\<close> returns an issue with the same message and kind and
  with the span \<^verbatim>\<open>span.translate(d)\<close>. When the span's \<open>startIndex\<close> and \<open>startIndex + d\<close> have
  magnitude at most \<open>2^53\<close>, translating that issue by \<open>- d\<close> returns the original issue.
\<close>

theorem Issue_translate_exact:
  assumes "1 \<le> Span_length (Issue_span i)" and "Issue_message i \<noteq> ''''"
  shows "case Issue_translate i d of
           Inl e \<Rightarrow> False
         | Inr j \<Rightarrow>
             Issue_message j = Issue_message i
             \<and> kind j = kind i
             \<and> Issue_span j = Span_translate (Issue_span i) d
             \<and> (in_exact_range (Span_startIndex (Issue_span i))
                  \<and> in_exact_range (Span_startIndex (Issue_span i) + d)
                \<longrightarrow> Issue_translate j (- d) = Inr i)"
proof -
  let ?j = "\<lparr>priv_span = Span_translate (priv_span i) d, priv_message = priv_message i,
             kind = kind i\<rparr>"
  have len: "Span_length (Span_translate sp m) = Span_length sp" for sp m
    by (simp add: Span_translate_def Span_new_def Span_length_def)
  have there: "Issue_translate i d = Inr ?j"
    using assms
    by (simp add: Issue_translate_def Issue_new_def nonNullValue_def assert_def
        Issue_span_def Issue_message_def len)
  have return: "Span_translate (Span_translate (priv_span i) d) (- d) = priv_span i"
    if r0: "in_exact_range (Span_startIndex (Issue_span i))"
      and r1: "in_exact_range (Span_startIndex (Issue_span i) + d)"
  proof (cases "d = 0")
    case True
    then show ?thesis by (simp add: Span_translate_def)
  next
    case False
    have "num_add (priv_startIndex (priv_span i)) d = priv_startIndex (priv_span i) + d"
      using r1 by (intro num_add_exact) (simp add: Span_startIndex_def Issue_span_def)
    moreover have "num_add (priv_startIndex (priv_span i) + d) (- d)
                     = priv_startIndex (priv_span i) + d + (- d)"
      using r0 by (intro num_add_exact) (simp add: Span_startIndex_def Issue_span_def)
    ultimately show ?thesis
      using False by (simp add: Span_translate_def Span_new_def)
  qed
  have "Issue_translate ?j (- d) = Inr i"
    if "in_exact_range (Span_startIndex (Issue_span i))"
      and "in_exact_range (Span_startIndex (Issue_span i) + d)"
    using assms return [OF that]
    by (simp add: Issue_translate_def Issue_new_def nonNullValue_def assert_def
        Issue_span_def Issue_message_def)
  then show ?thesis
    by (simp add: there Issue_span_def Issue_message_def)
qed

theorem Issue_translate_exact_witness:
  "(1 \<le> Span_length (Issue_span \<lparr>priv_span = Span_new 3 4, priv_message = ''m'', kind = unusedVar\<rparr>)
    \<and> Issue_message \<lparr>priv_span = Span_new 3 4, priv_message = ''m'', kind = unusedVar\<rparr> \<noteq> '''')
   \<and> (in_exact_range
         (Span_startIndex
            (Issue_span \<lparr>priv_span = Span_new 3 4, priv_message = ''m'', kind = unusedVar\<rparr>))
    \<and> in_exact_range
         (Span_startIndex
            (Issue_span \<lparr>priv_span = Span_new 3 4, priv_message = ''m'', kind = unusedVar\<rparr>) + 5))
   \<and> Issue_translate \<lparr>priv_span = Span_new 3 4, priv_message = ''m'', kind = unusedVar\<rparr> 5
       = Inr \<lparr>priv_span = Span_new 8 4, priv_message = ''m'', kind = unusedVar\<rparr>
   \<and> Issue_translate \<lparr>priv_span = Span_new 8 4, priv_message = ''m'', kind = unusedVar\<rparr> (- 5)
       = Inr \<lparr>priv_span = Span_new 3 4, priv_message = ''m'', kind = unusedVar\<rparr>"
  using Issue_translate_exact
    [of "\<lparr>priv_span = Span_new 3 4, priv_message = ''m'', kind = unusedVar\<rparr>" 5]
  by (simp add: Issue_translate_def Issue_new_def nonNullValue_def assert_def
      Issue_span_def Issue_message_def Span_translate_def Span_new_def Span_startIndex_def
      Span_length_def num_add_exact in_exact_range_def)

text \<open>
  Claim C7. Constructing a position throws an assertion error exactly when the line or the
  column is negative, and throws nothing else; for a non-negative line and column it returns a
  position whose \<^verbatim>\<open>line\<close> and \<^verbatim>\<open>column\<close> accessors give the arguments back.
\<close>

theorem Position_new_spec:
  "fails_assertion (Position_new line column) = (line < 0 \<or> column < 0)
   \<and> isl (Position_new line column) = (line < 0 \<or> column < 0)
   \<and> (0 \<le> line \<and> 0 \<le> column \<longrightarrow>
        (case Position_new line column of
           Inl e \<Rightarrow> False
         | Inr p \<Rightarrow> Position_line p = line \<and> Position_column p = column))"
  by (auto simp add: Position_new_def nonNullValue_def assert_def fails_assertion_def
      Position_line_def Position_column_def)

theorem Position_new_spec_witness:
  "((0::int) \<le> 2 \<and> (0::int) \<le> 7)
   \<and> Position_new 2 7 = Inr \<lparr>priv_line = 2, priv_column = 7\<rparr>
   \<and> Position_line \<lparr>priv_line = 2, priv_column = 7\<rparr> = 2
   \<and> Position_column \<lparr>priv_line = 2, priv_column = 7\<rparr> = 7
   \<and> fails_assertion (Position_new (- 1) 7)
   \<and> fails_assertion (Position_new 2 (- 1))"
  using Position_new_spec [of 2 7] Position_new_spec [of "- 1" 7] Position_new_spec [of 2 "- 1"]
  by (simp add: Position_new_def nonNullValue_def assert_def
      Position_line_def Position_column_def)

text \<open>
  Claim C8. \<^verbatim>\<open>IssueKind\<close> consists of exactly the fifteen members \<^verbatim>\<open>tleSyntax\<close>,
  \<^verbatim>\<open>referenceInVar\<close>, \<^verbatim>\<open>unusedVar\<close>, \<^verbatim>\<open>unusedParam\<close>, \<^verbatim>\<open>unusedUdfParam\<close>, \<^verbatim>\<open>unusedUdf\<close>,
  \<^verbatim>\<open>badArgsCount\<close>, \<^verbatim>\<open>badFuncContext\<close>, \<^verbatim>\<open>undefinedFunc\<close>, \<^verbatim>\<open>undefinedNs\<close>, \<^verbatim>\<open>undefinedUdf\<close>,
  \<^verbatim>\<open>undefinedParam\<close>, \<^verbatim>\<open>undefinedVar\<close>, \<^verbatim>\<open>varInUdf\<close> and \<^verbatim>\<open>undefinedVarProp\<close>: every value of
  the type is one of them, they are pairwise different, and each is initialised with its own
  name as a string.
\<close>

theorem IssueKind_closed:
  "(UNIV :: IssueKind set)
     = {tleSyntax, referenceInVar, unusedVar, unusedParam, unusedUdfParam, unusedUdf,
        badArgsCount, badFuncContext, undefinedFunc, undefinedNs, undefinedUdf,
        undefinedParam, undefinedVar, varInUdf, undefinedVarProp}
   \<and> distinct [tleSyntax, referenceInVar, unusedVar, unusedParam, unusedUdfParam, unusedUdf,
        badArgsCount, badFuncContext, undefinedFunc, undefinedNs, undefinedUdf,
        undefinedParam, undefinedVar, varInUdf, undefinedVarProp]
   \<and> card (UNIV :: IssueKind set) = 15
   \<and> map IssueKind_value [tleSyntax, referenceInVar, unusedVar, unusedParam, unusedUdfParam,
        unusedUdf, badArgsCount, badFuncContext, undefinedFunc, undefinedNs, undefinedUdf,
        undefinedParam, undefinedVar, varInUdf, undefinedVarProp]
     = [''tleSyntax'', ''referenceInVar'', ''unusedVar'', ''unusedParam'', ''unusedUdfParam'',
        ''unusedUdf'', ''badArgsCount'', ''badFuncContext'', ''undefinedFunc'', ''undefinedNs'',
        ''undefinedUdf'', ''undefinedParam'', ''undefinedVar'', ''varInUdf'',
        ''undefinedVarProp'']"
proof -
  let ?ks = "[tleSyntax, referenceInVar, unusedVar, unusedParam, unusedUdfParam, unusedUdf,
        badArgsCount, badFuncContext, undefinedFunc, undefinedNs, undefinedUdf,
        undefinedParam, undefinedVar, varInUdf, undefinedVarProp]"
  have mem: "k \<in> set ?ks" for k
    by (cases k) simp_all
  have univ: "(UNIV :: IssueKind set) = set ?ks"
    using mem by blast
  have dist: "distinct ?ks"
    by simp
  have "card (UNIV :: IssueKind set) = length ?ks"
    unfolding univ using dist by (rule distinct_card)
  then have crd: "card (UNIV :: IssueKind set) = 15"
    by simp
  show ?thesis
    using univ dist crd by simp
qed

text \<open>
  Claim C9. A span of length 0 reports that it contains its own start index (with
  \<^verbatim>\<open>includeAfterEndIndex\<close> omitted), although no index lies in the half-open interval from
  \<open>startIndex\<close> to \<open>afterEndIndex\<close>.
\<close>

theorem Span_contains_start_of_empty:
  assumes "Span_length s = 0"
  shows "Span_contains s (Span_startIndex s) None
         \<and> {i. Span_startIndex s \<le> i \<and> i < Span_afterEndIndex s} = {}"
  using assms by (simp add: Span_contains_def Span_defs num_add_zero_right)

theorem Span_contains_start_of_empty_witness:
  "Span_length (Span_new 5 0) = 0
   \<and> Span_contains (Span_new 5 0) (Span_startIndex (Span_new 5 0)) None
   \<and> {i. Span_startIndex (Span_new 5 0) \<le> i \<and> i < Span_afterEndIndex (Span_new 5 0)} = {}"
  using Span_contains_start_of_empty [of "Span_new 5 0"]
  by (simp add: Span_defs num_add_zero_right)

text \<open>
  As the claim is written, a negative length does not always put \<^verbatim>\<open>afterEndIndex\<close> before
  \<^verbatim>\<open>startIndex\<close>: \<^verbatim>\<open>Span(2^54,-1).afterEndIndex\<close> is \<open>2^54 - 1\<close> rounded, which is \<open>2^54\<close>
  again.
\<close>

theorem Span_new_negative_length_counterexample:
  "Span_length (Span_new 18014398509481984 (- 1)) < 0
   \<and> Span_afterEndIndex (Span_new 18014398509481984 (- 1)) = 18014398509481984
   \<and> \<not> Span_afterEndIndex (Span_new 18014398509481984 (- 1))
         < Span_startIndex (Span_new 18014398509481984 (- 1))"
  by (simp add: Span_defs num_add_def to_double_below_next)

text \<open>
  Claim C10. The span constructor validates nothing: for every pair of integers, negative
  ones included, it returns a span whose \<^verbatim>\<open>startIndex\<close> and \<^verbatim>\<open>length\<close> accessors give the
  arguments back. With a negative length, \<open>endIndex\<close> equals \<open>startIndex\<close>, and \<open>afterEndIndex\<close>
  lies before \<open>startIndex\<close> when \<open>startIndex + length\<close> has magnitude at most \<open>2^53\<close>.
\<close>

theorem Span_new_unvalidated_exact:
  "Span_startIndex (Span_new a b) = a
   \<and> Span_length (Span_new a b) = b
   \<and> (b < 0 \<longrightarrow> Span_endIndex (Span_new a b) = Span_startIndex (Span_new a b))
   \<and> (b < 0 \<and> in_exact_range (a + b) \<longrightarrow>
        Span_afterEndIndex (Span_new a b) < Span_startIndex (Span_new a b))"
  by (simp add: Span_defs num_add_zero_right num_add_exact)

theorem Span_new_unvalidated_exact_witness:
  "((- 3 :: int) < 0 \<and> in_exact_range (- 2 + - 3))
   \<and> Span_startIndex (Span_new (- 2) (- 3)) = - 2
   \<and> Span_length (Span_new (- 2) (- 3)) = - 3
   \<and> Span_afterEndIndex (Span_new (- 2) (- 3)) = - 5
   \<and> Span_endIndex (Span_new (- 2) (- 3)) = - 2"
  using Span_new_unvalidated_exact [of "- 2" "- 3"]
  by (simp add: Span_defs num_add_zero_right num_add_exact in_exact_range_def)

end
